theory Spec2Isabelle
  imports Complex_Main "HOL-Library.Word"
begin

section \<open>The bridge of pywgrib2-xr to wgrib2: \<open>geolocation.c\<close>\<close>

text \<open>
  \<open>geolocation.c\<close> holds two entry points, \<open>ll2ij\<close> and \<open>sec3latlon\<close>. Each sets the
  global \<open>output_order\<close>, saves a recovery context in the global \<open>fatal_err\<close> with
  \<open>setjmp\<close>, and delegates to functions of wgrib2 that the file only declares
  (\<open>gctpc_ll2xy_init\<close>, \<open>gctpc_ll2xy\<close>, \<open>gctpc_get_latlon\<close>, \<open>get_latlon\<close>).
  The delegated functions are parameters of the model; everything the two entry points
  do themselves is written out.
\<close>

subsection \<open>Data\<close>

text \<open>A C \<open>int\<close>: statuses and \<open>npts\<close>.\<close>

type_synonym c_int = "32 word"

text \<open>
  A pointer argument (\<open>unsigned char **\<close>, \<open>double *\<close>, \<open>double **\<close>). The entry points
  never dereference one; they hand each to the delegated function as received.
\<close>

type_synonym addr = nat

text \<open>
  Modelled from the spec: \<open>enum output_order_type\<close> is declared in
  \<open>wgrib2/wgrib2.h\<close>, which is not among the sources. The source uses its value
  \<open>wesn\<close> (west to east, south to north); the other two values stand for any
  ordering that is not \<open>wesn\<close>.
\<close>

datatype output_order_type = raw | wesn | wens

text \<open>
  One activation of a C function (a stack frame), named by a number. A \<open>jmp_buf\<close>
  filled by \<open>setjmp\<close> is a context of the activation that called \<open>setjmp\<close>, and is a
  target for \<open>longjmp\<close> only while that activation has not returned.
\<close>

type_synonym activation = nat

text \<open>
  The state of the process as the entry points and the delegated functions share it:
  the two globals the source declares \<open>extern\<close> (lines 7 and 13), the activations that
  have been entered and have not returned (innermost first), and the memory behind the
  pointer arguments, which only the delegated functions read and write.
\<close>

record 'm world =
  output_order :: output_order_type
  fatal_err :: "activation option"
  frames :: "activation list"
  mem :: 'm

text \<open>
  How a delegated call ends: it returns an \<open>int\<close>, or it raises a fatal condition
  (\<open>longjmp (fatal_err, _)\<close>), which resumes the caller at its \<open>setjmp\<close>. Either way
  it leaves a world behind; \<open>longjmp\<close> restores no memory.
\<close>

datatype 'm outcome = Returns c_int "'m world" | Fatal "'m world"

text \<open>The four functions declared \<open>extern\<close> at lines 9 to 12.\<close>

record 'm engine =
  gctpc_ll2xy_init :: "addr \<Rightarrow> addr \<Rightarrow> addr \<Rightarrow> 'm world \<Rightarrow> 'm outcome"
  gctpc_ll2xy :: "c_int \<Rightarrow> addr \<Rightarrow> addr \<Rightarrow> addr \<Rightarrow> addr \<Rightarrow> 'm world \<Rightarrow> 'm outcome"
  gctpc_get_latlon :: "addr \<Rightarrow> addr \<Rightarrow> addr \<Rightarrow> 'm world \<Rightarrow> 'm outcome"
  get_latlon :: "addr \<Rightarrow> addr \<Rightarrow> addr \<Rightarrow> 'm world \<Rightarrow> 'm outcome"

text \<open>A delegated call with its arguments, and the record of one such call in a run.\<close>

datatype delegated =
    Call_gctpc_ll2xy_init addr addr addr
  | Call_gctpc_ll2xy c_int addr addr addr addr
  | Call_gctpc_get_latlon addr addr addr
  | Call_get_latlon addr addr addr

record 'm event =
  callee :: delegated
  before :: "'m world"
  result :: "'m outcome"

text \<open>
  What an entry point gives back: the returned \<open>int\<close>, the world it leaves, and the
  delegated calls it made, in order.
\<close>

record 'm run =
  status :: c_int
  final :: "'m world"
  calls :: "'m event list"

subsection \<open>Calls, returns and \<open>setjmp\<close>\<close>

text \<open>A number that names no live activation and is not the one saved in \<open>fatal_err\<close>.\<close>

definition fresh :: "'m world \<Rightarrow> activation" where
  "fresh w = Suc (foldr max (frames w) (case fatal_err w of None \<Rightarrow> 0 | Some a \<Rightarrow> a))"

text \<open>Entering a function starts a new activation; returning from it ends the innermost.\<close>

definition enter :: "'m world \<Rightarrow> 'm world" where
  "enter w = w\<lparr>frames := fresh w # frames w\<rparr>"

definition leave :: "'m world \<Rightarrow> 'm world" where
  "leave w = w\<lparr>frames := tl (frames w)\<rparr>"

text \<open>\<open>setjmp (fatal_err)\<close>, called directly: the running activation's context is saved.\<close>

definition setjmp :: "'m world \<Rightarrow> 'm world" where
  "setjmp w = w\<lparr>fatal_err := (case frames w of [] \<Rightarrow> None | a # _ \<Rightarrow> Some a)\<rparr>"

text \<open>
  A call of a function \<open>f\<close> from the running activation. Whatever activations \<open>f\<close>
  starts are above the caller's; when control is back in the caller, by a return or by
  a \<open>longjmp\<close> to the context the caller saved, the live activations are the caller's
  again.
\<close>

definition call :: "('m world \<Rightarrow> 'm outcome) \<Rightarrow> 'm world \<Rightarrow> 'm outcome" where
  "call f w =
     (case f w of
        Returns i w' \<Rightarrow> Returns i (w'\<lparr>frames := frames w\<rparr>)
      | Fatal w' \<Rightarrow> Fatal (w'\<lparr>frames := frames w\<rparr>))"

fun delegate :: "'m engine \<Rightarrow> delegated \<Rightarrow> 'm world \<Rightarrow> 'm outcome" where
  "delegate E (Call_gctpc_ll2xy_init sec grid_lon grid_lat) = gctpc_ll2xy_init E sec grid_lon grid_lat"
| "delegate E (Call_gctpc_ll2xy n lon lat x y) = gctpc_ll2xy E n lon lat x y"
| "delegate E (Call_gctpc_get_latlon sec lon lat) = gctpc_get_latlon E sec lon lat"
| "delegate E (Call_get_latlon sec lon lat) = get_latlon E sec lon lat"

text \<open>The one place where the model runs a delegated function: the call is recorded.\<close>

definition invoke :: "'m engine \<Rightarrow> delegated \<Rightarrow> 'm world \<Rightarrow> 'm event" where
  "invoke E c w = \<lparr>callee = c, before = w, result = call (delegate E c) w\<rparr>"

subsection \<open>The entry points\<close>

text \<open>
  Lines 21 to 22 and 38 to 39: in the new activation, \<open>output_order = wesn\<close>, then
  \<open>setjmp (fatal_err)\<close>, which returns 0 when called directly.
\<close>

definition prologue :: "'m world \<Rightarrow> 'm world" where
  "prologue w0 = setjmp ((enter w0)\<lparr>output_order := wesn\<rparr>)"

text \<open>
  \<open>ll2ij\<close>, lines 16 to 31. After the prologue: line 25 calls the initializer; line 26
  tests its status and line 27 returns it when it is not 0; line 29 calls the point
  mapping and line 30 returns its status. A \<open>longjmp\<close> out of either call resumes
  at the \<open>setjmp\<close> of line 22, which then returns a value that is not 0, and line 23
  returns 9: these are the \<open>Fatal\<close> branches. Every \<open>return\<close> ends the activation.
\<close>

definition ll2ij ::
  "'m engine \<Rightarrow> addr \<Rightarrow> addr \<Rightarrow> addr \<Rightarrow> c_int \<Rightarrow> addr \<Rightarrow> addr \<Rightarrow> addr \<Rightarrow> addr \<Rightarrow> 'm world \<Rightarrow> 'm run" where
  "ll2ij E sec grid_lon grid_lat npts lon lat x y w0 =
     (let w1 = prologue w0;
          e1 = invoke E (Call_gctpc_ll2xy_init sec grid_lon grid_lat) w1
      in case result e1 of
           Fatal w \<Rightarrow> \<lparr>status = 9, final = leave w, calls = [e1]\<rparr>
         | Returns i w2 \<Rightarrow>
             if i \<noteq> 0 then \<lparr>status = i, final = leave w2, calls = [e1]\<rparr>
             else
               (let e2 = invoke E (Call_gctpc_ll2xy npts lon lat x y) w2
                in case result e2 of
                     Fatal w \<Rightarrow> \<lparr>status = 9, final = leave w, calls = [e1, e2]\<rparr>
                   | Returns i w3 \<Rightarrow> \<lparr>status = i, final = leave w3, calls = [e1, e2]\<rparr>))"

text \<open>
  \<open>sec3latlon\<close>, lines 34 to 47. After the prologue: line 42 calls the primary
  extractor; when its status is not 0 (line 43), line 44 calls the fallback with the
  same arguments and its status replaces the primary's; line 46 returns the status.
  The \<open>Fatal\<close> branches are the \<open>return 9\<close> of line 40.
\<close>

definition sec3latlon :: "'m engine \<Rightarrow> addr \<Rightarrow> addr \<Rightarrow> addr \<Rightarrow> 'm world \<Rightarrow> 'm run" where
  "sec3latlon E sec lon lat w0 =
     (let w1 = prologue w0;
          e1 = invoke E (Call_gctpc_get_latlon sec lon lat) w1
      in case result e1 of
           Fatal w \<Rightarrow> \<lparr>status = 9, final = leave w, calls = [e1]\<rparr>
         | Returns i w2 \<Rightarrow>
             if i \<noteq> 0 then
               (let e2 = invoke E (Call_get_latlon sec lon lat) w2
                in case result e2 of
                     Fatal w \<Rightarrow> \<lparr>status = 9, final = leave w, calls = [e1, e2]\<rparr>
                   | Returns i w3 \<Rightarrow> \<lparr>status = i, final = leave w3, calls = [e1, e2]\<rparr>)
             else \<lparr>status = i, final = leave w2, calls = [e1]\<rparr>)"

subsection \<open>Observations on a run\<close>

fun is_fatal :: "'m outcome \<Rightarrow> bool" where
  "is_fatal (Fatal w) = True"
| "is_fatal (Returns i w) = False"

fun world_of :: "'m outcome \<Rightarrow> 'm world" where
  "world_of (Returns i w) = w"
| "world_of (Fatal w) = w"

text \<open>A fatal condition was raised during some delegated call of the run.\<close>

definition fatal_raised :: "'m run \<Rightarrow> bool" where
  "fatal_raised r = list_ex (\<lambda>e. is_fatal (result e)) (calls r)"

fun is_gctpc_ll2xy :: "delegated \<Rightarrow> bool" where
  "is_gctpc_ll2xy (Call_gctpc_ll2xy n lon lat x y) = True"
| "is_gctpc_ll2xy c = False"

fun is_get_latlon :: "delegated \<Rightarrow> bool" where
  "is_get_latlon (Call_get_latlon sec lon lat) = True"
| "is_get_latlon c = False"

text \<open>
  The recovery trampoline as a machine of two states, read off the world: armed when
  \<open>fatal_err\<close> holds the context of an activation that has not returned.
\<close>

datatype trampoline = idle | armed

definition trampoline_state :: "'m world \<Rightarrow> trampoline" where
  "trampoline_state w =
     (case fatal_err w of
        None \<Rightarrow> idle
      | Some a \<Rightarrow> if a \<in> set (frames w) then armed else idle)"

text \<open>
  An assumption on the delegated functions: none of them changes the part \<open>g\<close> of the
  world, however it ends. With \<open>g = output_order\<close> it says that the engines only read
  the flag; with \<open>g = fatal_err\<close>, that they raise fatal conditions through the saved
  context and never call \<open>setjmp\<close> on it themselves.
\<close>

definition preserves :: "('m world \<Rightarrow> 'v) \<Rightarrow> 'm engine \<Rightarrow> bool" where
  "preserves g E \<longleftrightarrow> (\<forall>c w. g (world_of (delegate E c w)) = g w)"

text \<open>
  What the caller of an entry point can tell of a run: the status and the world. Which
  delegated calls were made, and how each ended, is not among it.
\<close>

definition same_to_caller :: "'m run \<Rightarrow> 'm run \<Rightarrow> bool" where
  "same_to_caller r r' \<longleftrightarrow> status r = status r' \<and> final r = final r'"

text \<open>
  The run \<open>r\<close> gives its caller what the outcome \<open>out\<close> of a delegated call
  dictates: the status that call returned, or 9 when it raised a fatal condition, and
  the world that call left, the entry point's activation ended.
\<close>

definition decided_by :: "'m run \<Rightarrow> 'm outcome \<Rightarrow> bool" where
  "decided_by r out \<longleftrightarrow>
     status r = (case out of Returns j w \<Rightarrow> j | Fatal w \<Rightarrow> 9) \<and> final r = leave (world_of out)"

subsection \<open>Coordinate arrays and stub engines\<close>

text \<open>
  A memory for the extractors: for an out-parameter \<open>p\<close> of type \<open>double **\<close>, the
  array that \<open>*p\<close> points to, if any. The entry points move doubles without computing
  with them, so a double is a real number here.
\<close>

type_synonym heap = "addr \<Rightarrow> real list option"

text \<open>What a caller reads through the out-parameter \<open>p\<close>.\<close>

definition array_at :: "heap \<Rightarrow> addr \<Rightarrow> real list option" where
  "array_at h p = h p"

text \<open>
  Stub engines, as a test of the bridge supplies them. In \<open>stub_engine\<close> each delegated
  function leaves the world as it is and ends as told: it returns a status or raises a
  fatal condition.
\<close>

datatype ending = Ret c_int | Abort

fun ends :: "ending \<Rightarrow> 'm world \<Rightarrow> 'm outcome" where
  "ends (Ret i) w = Returns i w"
| "ends Abort w = Fatal w"

definition stub_engine :: "ending \<Rightarrow> ending \<Rightarrow> ending \<Rightarrow> ending \<Rightarrow> 'm engine" where
  "stub_engine e1 e2 e3 e4 =
     \<lparr>gctpc_ll2xy_init = (\<lambda>sec grid_lon grid_lat. ends e1),
      gctpc_ll2xy = (\<lambda>n lon lat x y. ends e2),
      gctpc_get_latlon = (\<lambda>sec lon lat. ends e3),
      get_latlon = (\<lambda>sec lon lat. ends e4)\<rparr>"

text \<open>
  A stub extractor stores the arrays \<open>xs\<close> and \<open>ys\<close> through its out-parameters and
  returns the status \<open>i\<close>; \<open>extractor_stubs\<close> is an engine of two such extractors.
\<close>

definition extract_stub ::
  "c_int \<Rightarrow> real list \<Rightarrow> real list \<Rightarrow> addr \<Rightarrow> addr \<Rightarrow> addr \<Rightarrow> heap world \<Rightarrow> heap outcome" where
  "extract_stub i xs ys sec lon lat w = Returns i (w\<lparr>mem := (mem w)(lon \<mapsto> xs, lat \<mapsto> ys)\<rparr>)"

definition extractor_stubs ::
  "(addr \<Rightarrow> addr \<Rightarrow> addr \<Rightarrow> heap world \<Rightarrow> heap outcome) \<Rightarrow>
   (addr \<Rightarrow> addr \<Rightarrow> addr \<Rightarrow> heap world \<Rightarrow> heap outcome) \<Rightarrow> heap engine" where
  "extractor_stubs primary fallback =
     \<lparr>gctpc_ll2xy_init = (\<lambda>sec grid_lon grid_lat. ends (Ret 0)),
      gctpc_ll2xy = (\<lambda>n lon lat x y. ends (Ret 0)),
      gctpc_get_latlon = primary,
      get_latlon = fallback\<rparr>"

text \<open>A stub extractor that returns the status \<open>i\<close> and stores nothing.\<close>

definition silent_extractor :: "c_int \<Rightarrow> addr \<Rightarrow> addr \<Rightarrow> addr \<Rightarrow> heap world \<Rightarrow> heap outcome" where
  "silent_extractor i sec lon lat w = Returns i w"

text \<open>
  Engines that write the globals. In \<open>flag_writer\<close> every delegated function assigns
  \<open>v\<close> to \<open>output_order\<close> and then ends as told.
\<close>

definition set_flag :: "output_order_type \<Rightarrow> 'm world \<Rightarrow> 'm world" where
  "set_flag v w = w\<lparr>output_order := v\<rparr>"

definition flag_writer ::
  "output_order_type \<Rightarrow> ending \<Rightarrow> ending \<Rightarrow> ending \<Rightarrow> ending \<Rightarrow> 'm engine" where
  "flag_writer v e1 e2 e3 e4 =
     \<lparr>gctpc_ll2xy_init = (\<lambda>sec grid_lon grid_lat w. ends e1 (set_flag v w)),
      gctpc_ll2xy = (\<lambda>n lon lat x y w. ends e2 (set_flag v w)),
      gctpc_get_latlon = (\<lambda>sec lon lat w. ends e3 (set_flag v w)),
      get_latlon = (\<lambda>sec lon lat w. ends e4 (set_flag v w))\<rparr>"

text \<open>
  A delegated function that reports what it finds: \<open>flag_probe\<close> returns 0 when it is
  run with \<open>output_order\<close> equal to \<open>wesn\<close> and 1 otherwise; \<open>target_probe\<close> returns 0
  when it is run with the trampoline armed and 1 otherwise. Neither changes the world.
\<close>

definition flag_probe :: "'m world \<Rightarrow> 'm outcome" where
  "flag_probe w = Returns (if output_order w = wesn then 0 else 1) w"

definition target_probe :: "'m world \<Rightarrow> 'm outcome" where
  "target_probe w = Returns (if trampoline_state w = armed then 0 else 1) w"

text \<open>
  An engine of probes: the function an entry point calls first applies \<open>f\<close> to the
  world and returns the status that makes the entry point go on to its second call
  (0 from the initializer, 5 from the primary extractor); the function called second is
  the probe \<open>p\<close>.
\<close>

definition probing_engine ::
  "('m world \<Rightarrow> 'm world) \<Rightarrow> ('m world \<Rightarrow> 'm outcome) \<Rightarrow> 'm engine" where
  "probing_engine f p =
     \<lparr>gctpc_ll2xy_init = (\<lambda>sec grid_lon grid_lat w. Returns 0 (f w)),
      gctpc_ll2xy = (\<lambda>n lon lat x y. p),
      gctpc_get_latlon = (\<lambda>sec lon lat w. Returns 5 (f w)),
      get_latlon = (\<lambda>sec lon lat. p)\<rparr>"

text \<open>
  A delegated function that calls \<open>setjmp (fatal_err)\<close> itself: the context saved is
  of its own activation, which has ended when it returns.
\<close>

definition own_setjmp :: "'m world \<Rightarrow> 'm world" where
  "own_setjmp w = w\<lparr>fatal_err := Some (fresh w)\<rparr>"

text \<open>A world to start from: no activation, \<open>fatal_err\<close> never filled, the flag not \<open>wesn\<close>.\<close>

definition boot :: "'m \<Rightarrow> 'm world" where
  "boot m = \<lparr>output_order = raw, fatal_err = None, frames = [], mem = m\<rparr>"

section \<open>Properties\<close>

subsection \<open>Activations and the prologue\<close>





lemma prologue_simps:
  "output_order (prologue w0) = wesn"
  "fatal_err (prologue w0) = Some (fresh w0)"
  "frames (prologue w0) = fresh w0 # frames w0"
  "mem (prologue w0) = mem w0"
  by (simp_all add: prologue_def setjmp_def enter_def)

lemma leave_simps:
  "output_order (leave w) = output_order w"
  "fatal_err (leave w) = fatal_err w"
  "frames (leave w) = tl (frames w)"
  "mem (leave w) = mem w"
  by (simp_all add: leave_def)

subsection \<open>Delegated calls\<close>

lemma world_of_call: "world_of (call f w) = (world_of (f w))\<lparr>frames := frames w\<rparr>"
  by (simp add: call_def split: outcome.splits)

lemma frames_after_call: "frames (world_of (call f w)) = frames w"
  by (simp add: world_of_call)

lemma output_order_after_call:
  "preserves output_order E \<Longrightarrow> output_order (world_of (call (delegate E c) w)) = output_order w"
  by (simp add: world_of_call preserves_def)

lemma fatal_err_after_call:
  "preserves fatal_err E \<Longrightarrow> fatal_err (world_of (call (delegate E c) w)) = fatal_err w"
  by (simp add: world_of_call preserves_def)

lemma invoke_simps:
  "callee (invoke E c w) = c"
  "before (invoke E c w) = w"
  "result (invoke E c w) = call (delegate E c) w"
  by (simp_all add: invoke_def)

text \<open>A stub engine changes nothing of the world, so it preserves every part of it.\<close>

lemma world_of_ends: "world_of (ends e w) = w"
  by (cases e) simp_all

lemma preserves_stub_engine: "preserves g (stub_engine e1 e2 e3 e4)"
proof -
  have "world_of (delegate (stub_engine e1 e2 e3 e4) c w) = w" for c and w :: "'a world"
    by (cases c) (simp_all add: stub_engine_def world_of_ends)
  then show ?thesis by (simp add: preserves_def)
qed

subsection \<open>The paths through the entry points\<close>

lemma ll2ij_init_failed:
  assumes "call (gctpc_ll2xy_init E sec grid_lon grid_lat) (prologue w0) = Returns k w"
    and "k \<noteq> 0"
  shows "ll2ij E sec grid_lon grid_lat npts lon lat x y w0 =
    \<lparr>status = k, final = leave w,
     calls = [invoke E (Call_gctpc_ll2xy_init sec grid_lon grid_lat) (prologue w0)]\<rparr>"
  using assms by (simp add: ll2ij_def Let_def invoke_simps)

lemma ll2ij_mapped:
  assumes "call (gctpc_ll2xy_init E sec grid_lon grid_lat) (prologue w0) = Returns 0 w1"
  shows "ll2ij E sec grid_lon grid_lat npts lon lat x y w0 =
    (let e1 = invoke E (Call_gctpc_ll2xy_init sec grid_lon grid_lat) (prologue w0);
         e2 = invoke E (Call_gctpc_ll2xy npts lon lat x y) w1
     in \<lparr>status = (case result e2 of Fatal w \<Rightarrow> 9 | Returns j w \<Rightarrow> j),
         final = leave (world_of (result e2)), calls = [e1, e2]\<rparr>)"
  using assms by (simp add: ll2ij_def Let_def invoke_simps split: outcome.splits)

lemma sec3latlon_primary_ok:
  assumes "call (gctpc_get_latlon E sec lon lat) (prologue w0) = Returns 0 w"
  shows "sec3latlon E sec lon lat w0 =
    \<lparr>status = 0, final = leave w,
     calls = [invoke E (Call_gctpc_get_latlon sec lon lat) (prologue w0)]\<rparr>"
  using assms by (simp add: sec3latlon_def Let_def invoke_simps)

lemma sec3latlon_fell_back:
  assumes "call (gctpc_get_latlon E sec lon lat) (prologue w0) = Returns k w1"
    and "k \<noteq> 0"
  shows "sec3latlon E sec lon lat w0 =
    (let e1 = invoke E (Call_gctpc_get_latlon sec lon lat) (prologue w0);
         e2 = invoke E (Call_get_latlon sec lon lat) w1
     in \<lparr>status = (case result e2 of Fatal w \<Rightarrow> 9 | Returns j w \<Rightarrow> j),
         final = leave (world_of (result e2)), calls = [e1, e2]\<rparr>)"
  using assms by (simp add: sec3latlon_def Let_def invoke_simps split: outcome.splits)

text \<open>
  Every run makes one delegated call or two, the second in the world the first left,
  and returns from the world the last one left.
\<close>

lemma ll2ij_shape:
  "(let e1 = invoke E (Call_gctpc_ll2xy_init sec grid_lon grid_lat) (prologue w0);
        e2 = invoke E (Call_gctpc_ll2xy npts lon lat x y) (world_of (result e1));
        r = ll2ij E sec grid_lon grid_lat npts lon lat x y w0
    in (calls r = [e1] \<and> final r = leave (world_of (result e1))) \<or>
       (calls r = [e1, e2] \<and> final r = leave (world_of (result e2))))"
  by (simp add: ll2ij_def Let_def split: outcome.splits)

lemma sec3latlon_shape:
  "(let e1 = invoke E (Call_gctpc_get_latlon sec lon lat) (prologue w0);
        e2 = invoke E (Call_get_latlon sec lon lat) (world_of (result e1));
        r = sec3latlon E sec lon lat w0
    in (calls r = [e1] \<and> final r = leave (world_of (result e1))) \<or>
       (calls r = [e1, e2] \<and> final r = leave (world_of (result e2))))"
  by (simp add: sec3latlon_def Let_def split: outcome.splits)

text \<open>The record of a run is sound: each event holds what the engine did in its world.\<close>

lemma ll2ij_calls_recorded:
  "list_all (\<lambda>e. e = invoke E (callee e) (before e))
     (calls (ll2ij E sec grid_lon grid_lat npts lon lat x y w0))"
  by (simp add: ll2ij_def Let_def invoke_simps split: outcome.splits)

lemma sec3latlon_calls_recorded:
  "list_all (\<lambda>e. e = invoke E (callee e) (before e)) (calls (sec3latlon E sec lon lat w0))"
  by (simp add: sec3latlon_def Let_def invoke_simps split: outcome.splits)

text \<open>
  Whatever holds of the world at the first delegated call and is kept by every delegated
  call holds at each delegated call of a run, and of the world the run returns from.
\<close>

lemma ll2ij_invariant:
  assumes "P (prologue w0)"
    and "\<And>c w. P w \<Longrightarrow> P (world_of (call (delegate E c) w))"
  shows "(let r = ll2ij E sec grid_lon grid_lat npts lon lat x y w0
          in list_all (\<lambda>e. P (before e)) (calls r) \<and> (\<exists>w. P w \<and> final r = leave w))"
proof -
  let ?e1 = "invoke E (Call_gctpc_ll2xy_init sec grid_lon grid_lat) (prologue w0)"
  let ?e2 = "invoke E (Call_gctpc_ll2xy npts lon lat x y) (world_of (result ?e1))"
  have p1: "P (world_of (result ?e1))"
    using assms by (simp add: invoke_simps del: delegate.simps)
  then have p2: "P (world_of (result ?e2))"
    using assms(2) by (simp add: invoke_simps del: delegate.simps)
  from ll2ij_shape [of E sec grid_lon grid_lat w0 npts lon lat x y] assms(1) p1 p2
  show ?thesis by (auto simp: Let_def invoke_simps)
qed

lemma sec3latlon_invariant:
  assumes "P (prologue w0)"
    and "\<And>c w. P w \<Longrightarrow> P (world_of (call (delegate E c) w))"
  shows "(let r = sec3latlon E sec lon lat w0
          in list_all (\<lambda>e. P (before e)) (calls r) \<and> (\<exists>w. P w \<and> final r = leave w))"
proof -
  let ?e1 = "invoke E (Call_gctpc_get_latlon sec lon lat) (prologue w0)"
  let ?e2 = "invoke E (Call_get_latlon sec lon lat) (world_of (result ?e1))"
  have p1: "P (world_of (result ?e1))"
    using assms by (simp add: invoke_simps del: delegate.simps)
  then have p2: "P (world_of (result ?e2))"
    using assms(2) by (simp add: invoke_simps del: delegate.simps)
  from sec3latlon_shape [of E sec lon lat w0] assms(1) p1 p2
  show ?thesis by (auto simp: Let_def invoke_simps)
qed

subsection \<open>The trampoline\<close>



text \<open>The definitions that running an entry point on a stub engine unfolds.\<close>

lemmas run_defs =
  ll2ij_def sec3latlon_def prologue_def enter_def leave_def setjmp_def fresh_def call_def
  invoke_def stub_engine_def extractor_stubs_def extract_stub_def boot_def Let_def

subsection \<open>Engines that leave a global alone, and probes\<close>

lemma flag_kept:
  "preserves output_order E \<Longrightarrow> call (delegate E c) w = Returns k w2 \<Longrightarrow>
   output_order w2 = output_order w"
  using output_order_after_call [of E c w] by simp

lemma target_kept:
  "preserves fatal_err E \<Longrightarrow> call (delegate E c) w = Returns k w2 \<Longrightarrow>
   fatal_err w2 = fatal_err w \<and> frames w2 = frames w"
  using fatal_err_after_call [of E c w] frames_after_call [of "delegate E c" w] by simp

lemma preserves_probing_engine:
  "preserves g (probing_engine id flag_probe)"
  "preserves g (probing_engine id target_probe)"
proof -
  have "world_of (delegate (probing_engine id flag_probe) c w) = w" for c and w :: "'a world"
    by (cases c) (simp_all add: probing_engine_def flag_probe_def)
  then show "preserves g (probing_engine id flag_probe)"
    by (simp add: preserves_def)
  have "world_of (delegate (probing_engine id target_probe) c w) = w" for c and w :: "'a world"
    by (cases c) (simp_all add: probing_engine_def target_probe_def)
  then show "preserves g (probing_engine id target_probe)"
    by (simp add: preserves_def)
qed

text \<open>The definitions that running an entry point on a writing or probing engine unfolds.\<close>

lemmas probe_defs =
  flag_writer_def set_flag_def flag_probe_def probing_engine_def own_setjmp_def
  silent_extractor_def

section \<open>The claims\<close>

text \<open>
  C1, as amended. When the primary extractor \<open>gctpc_get_latlon\<close> returns a status
  \<open>k\<close> other than 0, \<open>sec3latlon\<close> makes two delegated calls, the primary and then
  the fallback \<open>get_latlon\<close>, the fallback once, with the same three arguments and in
  the world the primary left. When the fallback returns, \<open>sec3latlon\<close> returns the
  fallback's status, and the caller finds the world, so the arrays behind \<open>lon\<close> and
  \<open>lat\<close>, as the fallback call left it. The entry point resets nothing between the
  two calls: what the primary stored and the fallback did not overwrite is still there.
\<close>

theorem sec3latlon_falls_back:
  assumes "call (gctpc_get_latlon E sec lon lat) (prologue w0) = Returns k w1"
    and "k \<noteq> 0"
  shows "(let r = sec3latlon E sec lon lat w0
          in map callee (calls r) = [Call_gctpc_get_latlon sec lon lat, Call_get_latlon sec lon lat] \<and>
             filter is_get_latlon (map callee (calls r)) = [Call_get_latlon sec lon lat] \<and>
             before (last (calls r)) = w1 \<and>
             (\<forall>j w2. call (get_latlon E sec lon lat) w1 = Returns j w2 \<longrightarrow>
                status r = j \<and> final r = leave w2 \<and> mem (final r) = mem w2))"
  by (simp add: sec3latlon_fell_back [OF assms] Let_def invoke_simps leave_simps)

theorem sec3latlon_falls_back_witness:
  "(let E = extractor_stubs (extract_stub 7 [1] [2]) (extract_stub 2 [3, 4] [5, 6]);
        r = sec3latlon E 1 2 3 (boot Map.empty)
    in call (gctpc_get_latlon E 1 2 3) (prologue (boot Map.empty)) =
         Returns 7 ((prologue (boot Map.empty))\<lparr>mem := [2 \<mapsto> [1], 3 \<mapsto> [2]]\<rparr>) \<and>
       map callee (calls r) = [Call_gctpc_get_latlon 1 2 3, Call_get_latlon 1 2 3] \<and>
       status r = 2 \<and>
       array_at (mem (final r)) 2 = Some [3, 4] \<and> array_at (mem (final r)) 3 = Some [5, 6])"
proof -
  let ?E = "extractor_stubs (extract_stub 7 [1] [2]) (extract_stub 2 [3, 4] [5, 6])"
  let ?w1 = "(prologue (boot Map.empty))\<lparr>mem := [2 \<mapsto> [1], 3 \<mapsto> [2::real]]\<rparr>"
  let ?w2 = "(prologue (boot Map.empty))\<lparr>mem := [2 \<mapsto> [3, 4], 3 \<mapsto> [5, 6::real]]\<rparr>"
  have h1: "call (gctpc_get_latlon ?E 1 2 3) (prologue (boot Map.empty)) = Returns 7 ?w1"
    by (simp add: run_defs)
  have h2: "(7::c_int) \<noteq> 0"
    by simp
  have h3: "call (get_latlon ?E 1 2 3) ?w1 = Returns 2 ?w2"
    by (simp add: run_defs)
  from sec3latlon_falls_back [OF h1 h2] h1 h3 show ?thesis
    by (simp add: Let_def leave_simps array_at_def)
qed

text \<open>
  C1 as stated fails in its last clause. The primary stores \<open>[1]\<close> and \<open>[2]\<close> and
  returns 5; the fallback stores nothing and returns 0. Both are handed the same \<open>lon\<close>
  and \<open>lat\<close>, and \<open>sec3latlon\<close> resets nothing between the calls: it returns 0, and the
  caller reads the primary's \<open>[1]\<close> and \<open>[2]\<close>.
\<close>

theorem primary_output_not_discarded:
  "call (gctpc_get_latlon (extractor_stubs (extract_stub 5 [1] [2]) (silent_extractor 0)) 1 2 3)
       (prologue (boot Map.empty)) =
     Returns 5 ((prologue (boot Map.empty))\<lparr>mem := [2 \<mapsto> [1], 3 \<mapsto> [2]]\<rparr>) \<and>
   call (get_latlon (extractor_stubs (extract_stub 5 [1] [2]) (silent_extractor 0)) 1 2 3)
       ((prologue (boot Map.empty))\<lparr>mem := [2 \<mapsto> [1], 3 \<mapsto> [2]]\<rparr>) =
     Returns 0 ((prologue (boot Map.empty))\<lparr>mem := [2 \<mapsto> [1], 3 \<mapsto> [2]]\<rparr>) \<and>
   status (sec3latlon (extractor_stubs (extract_stub 5 [1] [2]) (silent_extractor 0)) 1 2 3
       (boot Map.empty)) = 0 \<and>
   array_at (mem (final (sec3latlon (extractor_stubs (extract_stub 5 [1] [2]) (silent_extractor 0))
       1 2 3 (boot Map.empty)))) 2 = Some [1] \<and>
   array_at (mem (final (sec3latlon (extractor_stubs (extract_stub 5 [1] [2]) (silent_extractor 0))
       1 2 3 (boot Map.empty)))) 3 = Some [2]"
  by (simp add: run_defs probe_defs array_at_def)

text \<open>
  C2. A fatal condition can be raised at four points: in \<open>ll2ij\<close>, by the initializer, or
  by \<open>gctpc_ll2xy\<close> after the initializer returned 0; in \<open>sec3latlon\<close>, by the primary
  extractor, or by the fallback after the primary returned a status other than 0. At
  each of them the entry point returns 9 at once: the world is the one the raising
  function left, and that function is the last one called.
\<close>

theorem fatal_condition_returns_9:
  "(call (gctpc_ll2xy_init E sec grid_lon grid_lat) (prologue w0) = Fatal w \<longrightarrow>
      (let r = ll2ij E sec grid_lon grid_lat npts lon lat x y w0
       in status r = 9 \<and> final r = leave w \<and>
          map callee (calls r) = [Call_gctpc_ll2xy_init sec grid_lon grid_lat])) \<and>
   (call (gctpc_ll2xy_init E sec grid_lon grid_lat) (prologue w0) = Returns 0 w1 \<and>
    call (gctpc_ll2xy E npts lon lat x y) w1 = Fatal w \<longrightarrow>
      (let r = ll2ij E sec grid_lon grid_lat npts lon lat x y w0
       in status r = 9 \<and> final r = leave w \<and>
          map callee (calls r) =
            [Call_gctpc_ll2xy_init sec grid_lon grid_lat, Call_gctpc_ll2xy npts lon lat x y])) \<and>
   (call (gctpc_get_latlon E sec' lon' lat') (prologue w0) = Fatal w \<longrightarrow>
      (let r = sec3latlon E sec' lon' lat' w0
       in status r = 9 \<and> final r = leave w \<and>
          map callee (calls r) = [Call_gctpc_get_latlon sec' lon' lat'])) \<and>
   (call (gctpc_get_latlon E sec' lon' lat') (prologue w0) = Returns k w1 \<and> k \<noteq> 0 \<and>
    call (get_latlon E sec' lon' lat') w1 = Fatal w \<longrightarrow>
      (let r = sec3latlon E sec' lon' lat' w0
       in status r = 9 \<and> final r = leave w \<and>
          map callee (calls r) =
            [Call_gctpc_get_latlon sec' lon' lat', Call_get_latlon sec' lon' lat']))"
  by (simp add: ll2ij_def sec3latlon_def Let_def invoke_simps)

theorem fatal_condition_returns_9_witness:
  "(let w = prologue (boot ());
        A = stub_engine Abort (Ret 0) Abort (Ret 0);
        B = stub_engine (Ret 0) Abort (Ret 4) Abort
    in call (gctpc_ll2xy_init A 1 2 3) w = Fatal w \<and>
       status (ll2ij A 1 2 3 1 4 5 6 7 (boot ())) = 9 \<and>
       call (gctpc_get_latlon A 1 2 3) w = Fatal w \<and>
       status (sec3latlon A 1 2 3 (boot ())) = 9 \<and>
       call (gctpc_ll2xy_init B 1 2 3) w = Returns 0 w \<and>
       call (gctpc_ll2xy B 1 4 5 6 7) w = Fatal w \<and>
       status (ll2ij B 1 2 3 1 4 5 6 7 (boot ())) = 9 \<and>
       call (gctpc_get_latlon B 1 2 3) w = Returns 4 w \<and>
       call (get_latlon B 1 2 3) w = Fatal w \<and>
       status (sec3latlon B 1 2 3 (boot ())) = 9)"
proof -
  let ?w = "prologue (boot ())"
  let ?A = "stub_engine Abort (Ret 0) Abort (Ret 0) :: unit engine"
  let ?B = "stub_engine (Ret 0) Abort (Ret 4) Abort :: unit engine"
  have a: "call (gctpc_ll2xy_init ?A 1 2 3) ?w = Fatal ?w"
    "call (gctpc_get_latlon ?A 1 2 3) ?w = Fatal ?w"
    by (simp_all add: run_defs)
  have b: "call (gctpc_ll2xy_init ?B 1 2 3) ?w = Returns 0 ?w"
    "call (gctpc_ll2xy ?B 1 4 5 6 7) ?w = Fatal ?w"
    "call (gctpc_get_latlon ?B 1 2 3) ?w = Returns 4 ?w"
    "call (get_latlon ?B 1 2 3) ?w = Fatal ?w"
    "(4::c_int) \<noteq> 0"
    by (simp_all add: run_defs)
  note t = fatal_condition_returns_9
  from t [where E = ?A and ?w0.0 = "boot ()" and w = ?w and ?w1.0 = ?w and k = 4
        and sec = 1 and grid_lon = 2 and grid_lat = 3 and npts = 1 and lon = 4 and lat = 5
        and x = 6 and y = 7 and sec' = 1 and lon' = 2 and lat' = 3]
    t [where E = ?B and ?w0.0 = "boot ()" and w = ?w and ?w1.0 = ?w and k = 4
        and sec = 1 and grid_lon = 2 and grid_lat = 3 and npts = 1 and lon = 4 and lat = 5
        and x = 6 and y = 7 and sec' = 1 and lon' = 2 and lat' = 3]
    a b
  show ?thesis by (simp add: Let_def)
qed

text \<open>
  C3. When the initializer \<open>gctpc_ll2xy_init\<close> returns a status \<open>k\<close> other than 0,
  \<open>ll2ij\<close> returns \<open>k\<close>, and the initializer is the only delegated call of the run:
  \<open>gctpc_ll2xy\<close> is not called.
\<close>

theorem ll2ij_init_failure_propagates:
  assumes "call (gctpc_ll2xy_init E sec grid_lon grid_lat) (prologue w0) = Returns k w"
    and "k \<noteq> 0"
  shows "(let r = ll2ij E sec grid_lon grid_lat npts lon lat x y w0
          in status r = k \<and>
             map callee (calls r) = [Call_gctpc_ll2xy_init sec grid_lon grid_lat] \<and>
             filter is_gctpc_ll2xy (map callee (calls r)) = [])"
  by (simp add: ll2ij_init_failed [OF assms] Let_def invoke_simps)

theorem ll2ij_init_failure_propagates_witness:
  "(let E = stub_engine (Ret 3) (Ret 0) (Ret 0) (Ret 0);
        r = ll2ij E 1 2 3 1 4 5 6 7 (boot ())
    in call (gctpc_ll2xy_init E 1 2 3) (prologue (boot ())) = Returns 3 (prologue (boot ())) \<and>
       status r = 3 \<and> map callee (calls r) = [Call_gctpc_ll2xy_init 1 2 3])"
proof -
  let ?E = "stub_engine (Ret 3) (Ret 0) (Ret 0) (Ret 0) :: unit engine"
  have h1: "call (gctpc_ll2xy_init ?E 1 2 3) (prologue (boot ())) = Returns 3 (prologue (boot ()))"
    by (simp add: run_defs)
  have h2: "(3::c_int) \<noteq> 0"
    by simp
  from ll2ij_init_failure_propagates [OF h1 h2, of 1 4 5 6 7] h1 show ?thesis
    by (simp add: Let_def)
qed

text \<open>
  C4. When the primary extractor \<open>gctpc_get_latlon\<close> returns 0, \<open>sec3latlon\<close> returns 0,
  the caller finds the world, so the arrays behind \<open>lon\<close> and \<open>lat\<close>, as the primary
  left it, and the primary is the only delegated call of the run: \<open>get_latlon\<close> is not
  called.
\<close>

theorem sec3latlon_primary_success:
  assumes "call (gctpc_get_latlon E sec lon lat) (prologue w0) = Returns 0 w1"
  shows "(let r = sec3latlon E sec lon lat w0
          in status r = 0 \<and> final r = leave w1 \<and> mem (final r) = mem w1 \<and>
             map callee (calls r) = [Call_gctpc_get_latlon sec lon lat] \<and>
             filter is_get_latlon (map callee (calls r)) = [])"
  by (simp add: sec3latlon_primary_ok [OF assms] Let_def invoke_simps leave_simps)

theorem sec3latlon_primary_success_witness:
  "(let E = extractor_stubs (extract_stub 0 [30, 31] [40, 41]) (extract_stub 0 [] []);
        r = sec3latlon E 1 2 3 (boot Map.empty)
    in call (gctpc_get_latlon E 1 2 3) (prologue (boot Map.empty)) =
         Returns 0 ((prologue (boot Map.empty))\<lparr>mem := [2 \<mapsto> [30, 31], 3 \<mapsto> [40, 41]]\<rparr>) \<and>
       status r = 0 \<and> map callee (calls r) = [Call_gctpc_get_latlon 1 2 3] \<and>
       array_at (mem (final r)) 2 = Some [30, 31] \<and> array_at (mem (final r)) 3 = Some [40, 41])"
proof -
  let ?E = "extractor_stubs (extract_stub 0 [30, 31] [40, 41]) (extract_stub 0 [] [])"
  let ?w1 = "(prologue (boot Map.empty))\<lparr>mem := [2 \<mapsto> [30, 31], 3 \<mapsto> [40, 41::real]]\<rparr>"
  have h1: "call (gctpc_get_latlon ?E 1 2 3) (prologue (boot Map.empty)) = Returns 0 ?w1"
    by (simp add: run_defs)
  from sec3latlon_primary_success [OF h1] h1 show ?thesis
    by (simp add: Let_def leave_simps array_at_def)
qed

text \<open>
  C5. When \<open>gctpc_ll2xy_init\<close> returns 0 and \<open>gctpc_ll2xy\<close> then returns a status \<open>j\<close>
  (so no fatal condition is raised), \<open>ll2ij\<close> calls \<open>gctpc_ll2xy\<close> once, after the
  initializer and in the world it left, with \<open>npts\<close>, \<open>lon\<close>, \<open>lat\<close>, \<open>x\<close> and \<open>y\<close> as
  received, and returns \<open>j\<close>, whatever \<open>j\<close> is; the caller finds the world as
  \<open>gctpc_ll2xy\<close> left it.
\<close>

theorem ll2ij_maps_points:
  assumes "call (gctpc_ll2xy_init E sec grid_lon grid_lat) (prologue w0) = Returns 0 w1"
    and "call (gctpc_ll2xy E npts lon lat x y) w1 = Returns j w2"
  shows "(let r = ll2ij E sec grid_lon grid_lat npts lon lat x y w0
          in status r = j \<and> final r = leave w2 \<and> mem (final r) = mem w2 \<and>
             map callee (calls r) =
               [Call_gctpc_ll2xy_init sec grid_lon grid_lat, Call_gctpc_ll2xy npts lon lat x y] \<and>
             filter is_gctpc_ll2xy (map callee (calls r)) = [Call_gctpc_ll2xy npts lon lat x y] \<and>
             before (last (calls r)) = w1)"
  by (simp add: ll2ij_mapped [OF assms(1)] assms(2) Let_def invoke_simps leave_simps)

theorem ll2ij_maps_points_witness:
  "(let E = stub_engine (Ret 0) (Ret 0) (Ret 0) (Ret 0);
        E' = stub_engine (Ret 0) (Ret 6) (Ret 0) (Ret 0);
        w = prologue (boot ())
    in call (gctpc_ll2xy_init E 1 2 3) w = Returns 0 w \<and>
       call (gctpc_ll2xy E 1 4 5 6 7) w = Returns 0 w \<and>
       call (gctpc_ll2xy E' 1 4 5 6 7) w = Returns 6 w \<and>
       status (ll2ij E 1 2 3 1 4 5 6 7 (boot ())) = 0 \<and>
       status (ll2ij E' 1 2 3 1 4 5 6 7 (boot ())) = 6 \<and>
       map callee (calls (ll2ij E' 1 2 3 1 4 5 6 7 (boot ()))) =
         [Call_gctpc_ll2xy_init 1 2 3, Call_gctpc_ll2xy 1 4 5 6 7])"
proof -
  let ?E = "stub_engine (Ret 0) (Ret 0) (Ret 0) (Ret 0) :: unit engine"
  let ?E' = "stub_engine (Ret 0) (Ret 6) (Ret 0) (Ret 0) :: unit engine"
  let ?w = "prologue (boot ())"
  have h1: "call (gctpc_ll2xy_init ?E 1 2 3) ?w = Returns 0 ?w"
    and h2: "call (gctpc_ll2xy ?E 1 4 5 6 7) ?w = Returns 0 ?w"
    and h1': "call (gctpc_ll2xy_init ?E' 1 2 3) ?w = Returns 0 ?w"
    and h2': "call (gctpc_ll2xy ?E' 1 4 5 6 7) ?w = Returns 6 ?w"
    by (simp_all add: run_defs)
  from ll2ij_maps_points [OF h1 h2] ll2ij_maps_points [OF h1' h2'] h1 h2 h2'
  show ?thesis by (simp add: Let_def)
qed

text \<open>
  C6, as amended. In every run of \<open>ll2ij\<close> and of \<open>sec3latlon\<close> the first delegated
  function is run in the world the prologue leaves, where \<open>output_order\<close> is \<open>wesn\<close>
  whatever it was on entry. The entry point assigns the flag once and not again: the
  second delegated function, when there is one, is run in the world the first left, and
  finds the flag equal to \<open>wesn\<close> provided the engines only read it. That the delegated
  functions are run in these worlds shows to the caller: the run gives the status and the
  world that their outcomes in these worlds dictate.
\<close>

theorem orientation_at_delegation:
  "(let r = ll2ij E sec grid_lon grid_lat npts lon lat x y w0;
        out1 = call (gctpc_ll2xy_init E sec grid_lon grid_lat) (prologue w0)
    in output_order (prologue w0) = wesn \<and>
       (case out1 of
          Fatal w \<Rightarrow> decided_by r out1
        | Returns k w2 \<Rightarrow>
            if k \<noteq> 0 then decided_by r out1
            else decided_by r (call (gctpc_ll2xy E npts lon lat x y) w2) \<and>
                 (preserves output_order E \<longrightarrow> output_order w2 = wesn))) \<and>
   (let r = sec3latlon E sec' lon' lat' w0;
        out1 = call (gctpc_get_latlon E sec' lon' lat') (prologue w0)
    in output_order (prologue w0) = wesn \<and>
       (case out1 of
          Fatal w \<Rightarrow> decided_by r out1
        | Returns k w2 \<Rightarrow>
            if k \<noteq> 0 then
              decided_by r (call (get_latlon E sec' lon' lat') w2) \<and>
              (preserves output_order E \<longrightarrow> output_order w2 = wesn)
            else decided_by r out1))"
proof -
  have kept: "output_order w2 = wesn"
    if "preserves output_order E" and "call (delegate E c) (prologue w0) = Returns k w2"
    for c k w2
    using flag_kept [OF that] by (simp add: prologue_simps)
  note k1 = kept [of "Call_gctpc_ll2xy_init sec grid_lon grid_lat", simplified]
  note k2 = kept [of "Call_gctpc_get_latlon sec' lon' lat'", simplified]
  have a: "decided_by (ll2ij E sec grid_lon grid_lat npts lon lat x y w0)
      (case call (gctpc_ll2xy_init E sec grid_lon grid_lat) (prologue w0) of
         Fatal w \<Rightarrow> Fatal w
       | Returns k w2 \<Rightarrow>
           if k \<noteq> 0 then Returns k w2 else call (gctpc_ll2xy E npts lon lat x y) w2)"
    by (simp add: ll2ij_def Let_def invoke_simps decided_by_def split: outcome.splits)
  have b: "decided_by (sec3latlon E sec' lon' lat' w0)
      (case call (gctpc_get_latlon E sec' lon' lat') (prologue w0) of
         Fatal w \<Rightarrow> Fatal w
       | Returns k w2 \<Rightarrow>
           if k \<noteq> 0 then call (get_latlon E sec' lon' lat') w2 else Returns k w2)"
    by (simp add: sec3latlon_def Let_def invoke_simps decided_by_def split: outcome.splits)
  from a b k1 k2 show ?thesis
    by (auto simp: Let_def prologue_simps split: outcome.splits)
qed

theorem orientation_at_delegation_witness:
  "(let E = probing_engine id flag_probe;
        w = prologue (boot ())
    in preserves output_order E \<and> output_order (boot ()) = raw \<and> output_order w = wesn \<and>
       call (gctpc_ll2xy_init E 1 2 3) w = Returns 0 w \<and>
       call (gctpc_ll2xy E 1 4 5 6 7) w = Returns 0 w \<and>
       status (ll2ij E 1 2 3 1 4 5 6 7 (boot ())) = 0 \<and>
       call (gctpc_get_latlon E 1 2 3) w = Returns 5 w \<and>
       call (get_latlon E 1 2 3) w = Returns 0 w \<and>
       status (sec3latlon E 1 2 3 (boot ())) = 0)"
proof -
  let ?E = "probing_engine id flag_probe :: unit engine"
  let ?w = "prologue (boot ())"
  have h: "preserves output_order ?E"
    by (rule preserves_probing_engine)
  have n: "output_order (boot ()) = raw"
    "call (gctpc_ll2xy_init ?E 1 2 3) ?w = Returns 0 ?w"
    "call (gctpc_ll2xy ?E 1 4 5 6 7) ?w = Returns 0 ?w"
    "call (gctpc_get_latlon ?E 1 2 3) ?w = Returns 5 ?w"
    "call (get_latlon ?E 1 2 3) ?w = Returns 0 ?w"
    by (simp_all add: run_defs probe_defs)
  from orientation_at_delegation [of ?E 1 2 3 1 4 5 6 7 "boot ()" 1 2 3] h n
  show ?thesis by (simp add: Let_def decided_by_def)
qed

text \<open>
  C6 as stated fails for the second delegated call. The world starts with the flag
  \<open>raw\<close>. The first delegated function puts \<open>raw\<close> back and returns the status that
  makes the entry point go on; the second is the probe, and it finds the flag \<open>raw\<close>:
  both entry points return the probe's 1.
\<close>

theorem stale_orientation_observed:
  "output_order (boot ()) = raw \<and>
   call (gctpc_ll2xy_init (probing_engine (set_flag raw) flag_probe) 1 2 3) (prologue (boot ())) =
     Returns 0 (set_flag raw (prologue (boot ()))) \<and>
   call (gctpc_ll2xy (probing_engine (set_flag raw) flag_probe) 1 4 5 6 7)
       (set_flag raw (prologue (boot ()))) =
     Returns 1 (set_flag raw (prologue (boot ()))) \<and>
   status (ll2ij (probing_engine (set_flag raw) flag_probe) 1 2 3 1 4 5 6 7 (boot ())) = 1 \<and>
   call (gctpc_get_latlon (probing_engine (set_flag raw) flag_probe) 1 2 3) (prologue (boot ())) =
     Returns 5 (set_flag raw (prologue (boot ()))) \<and>
   call (get_latlon (probing_engine (set_flag raw) flag_probe) 1 2 3)
       (set_flag raw (prologue (boot ()))) =
     Returns 1 (set_flag raw (prologue (boot ()))) \<and>
   status (sec3latlon (probing_engine (set_flag raw) flag_probe) 1 2 3 (boot ())) = 1"
  by (simp add: run_defs probe_defs)




text \<open>
  C8. The scenario of the spec: for a grid \<open>G\<close>, the primary extractor returns 5; the
  fallback, called in the world the primary left, returns 0 and leaves the array
  \<open>[10.0]\<close> behind \<open>lon\<close> and \<open>[20.0]\<close> behind \<open>lat\<close>. Then \<open>sec3latlon\<close> returns 0, and the
  caller reads \<open>[10.0]\<close> through \<open>lon\<close> and \<open>[20.0]\<close> through \<open>lat\<close>.
\<close>

theorem sec3latlon_scenario:
  assumes "call (gctpc_get_latlon E G lon lat) (prologue w0) = Returns 5 w1"
    and "call (get_latlon E G lon lat) w1 = Returns 0 w2"
    and "array_at (mem w2) lon = Some [10]"
    and "array_at (mem w2) lat = Some [20]"
  shows "status (sec3latlon E G lon lat w0) = 0 \<and>
         array_at (mem (final (sec3latlon E G lon lat w0))) lon = Some [10] \<and>
         array_at (mem (final (sec3latlon E G lon lat w0))) lat = Some [20]"
proof -
  have "(5::c_int) \<noteq> 0"
    by simp
  from sec3latlon_fell_back [OF assms(1) this] assms(2,3,4)
  show ?thesis by (simp add: Let_def invoke_simps leave_simps)
qed

theorem sec3latlon_scenario_witness:
  "(let E = extractor_stubs (extract_stub 5 [99] [98]) (extract_stub 0 [10] [20]);
        r = sec3latlon E 1 2 3 (boot Map.empty)
    in call (gctpc_get_latlon E 1 2 3) (prologue (boot Map.empty)) =
         Returns 5 ((prologue (boot Map.empty))\<lparr>mem := [2 \<mapsto> [99], 3 \<mapsto> [98]]\<rparr>) \<and>
       call (get_latlon E 1 2 3) ((prologue (boot Map.empty))\<lparr>mem := [2 \<mapsto> [99], 3 \<mapsto> [98]]\<rparr>) =
         Returns 0 ((prologue (boot Map.empty))\<lparr>mem := [2 \<mapsto> [10], 3 \<mapsto> [20]]\<rparr>) \<and>
       status r = 0 \<and>
       array_at (mem (final r)) 2 = Some [10] \<and> array_at (mem (final r)) 3 = Some [20])"
proof -
  let ?E = "extractor_stubs (extract_stub 5 [99] [98]) (extract_stub 0 [10] [20])"
  let ?w1 = "(prologue (boot Map.empty))\<lparr>mem := [2 \<mapsto> [99], 3 \<mapsto> [98::real]]\<rparr>"
  let ?w2 = "(prologue (boot Map.empty))\<lparr>mem := [2 \<mapsto> [10], 3 \<mapsto> [20::real]]\<rparr>"
  have h1: "call (gctpc_get_latlon ?E 1 2 3) (prologue (boot Map.empty)) = Returns 5 ?w1"
    by (simp add: run_defs)
  have h2: "call (get_latlon ?E 1 2 3) ?w1 = Returns 0 ?w2"
    by (simp add: run_defs)
  have h3: "array_at (mem ?w2) 2 = Some [10]" and h4: "array_at (mem ?w2) 3 = Some [20]"
    by (simp_all add: array_at_def)
  from sec3latlon_scenario [OF h1 h2 h3 h4] h1 h2 show ?thesis
    by (simp add: Let_def)
qed

text \<open>
  C9, as amended. In the prologue \<open>output_order\<close> is assigned before \<open>setjmp\<close> is
  called, and no later statement of an entry point writes it. So in every run of \<open>ll2ij\<close>
  and of \<open>sec3latlon\<close>, on every path (a returned 0, a returned engine status, the 9
  that follows a fatal condition), the world returned to is the one the last delegated
  call left, the entry point's activation ended: neither the unwind nor the return puts
  an earlier value of the flag back. Provided the engines only read the flag, it equals
  \<open>wesn\<close> there, whatever it was on entry.
\<close>

theorem orientation_on_return:
  "(let r = ll2ij E sec grid_lon grid_lat npts lon lat x y w0;
        out1 = call (gctpc_ll2xy_init E sec grid_lon grid_lat) (prologue w0)
    in prologue w0 = setjmp ((enter w0)\<lparr>output_order := wesn\<rparr>) \<and>
       output_order (prologue w0) = wesn \<and>
       (case out1 of
          Fatal w \<Rightarrow> decided_by r out1 \<and> output_order (final r) = output_order w
        | Returns k w2 \<Rightarrow>
            if k \<noteq> 0 then decided_by r out1 \<and> output_order (final r) = output_order w2
            else decided_by r (call (gctpc_ll2xy E npts lon lat x y) w2) \<and>
                 output_order (final r) =
                   output_order (world_of (call (gctpc_ll2xy E npts lon lat x y) w2))) \<and>
       (preserves output_order E \<longrightarrow> output_order (final r) = wesn)) \<and>
   (let r = sec3latlon E sec' lon' lat' w0;
        out1 = call (gctpc_get_latlon E sec' lon' lat') (prologue w0)
    in prologue w0 = setjmp ((enter w0)\<lparr>output_order := wesn\<rparr>) \<and>
       output_order (prologue w0) = wesn \<and>
       (case out1 of
          Fatal w \<Rightarrow> decided_by r out1 \<and> output_order (final r) = output_order w
        | Returns k w2 \<Rightarrow>
            if k \<noteq> 0 then
              decided_by r (call (get_latlon E sec' lon' lat') w2) \<and>
              output_order (final r) =
                output_order (world_of (call (get_latlon E sec' lon' lat') w2))
            else decided_by r out1 \<and> output_order (final r) = output_order w2) \<and>
       (preserves output_order E \<longrightarrow> output_order (final r) = wesn))"
proof -
  have start: "output_order (prologue w0) = wesn"
    by (simp add: prologue_simps)
  have step: "output_order (world_of (call (delegate E c) w)) = wesn"
    if "preserves output_order E" and "output_order w = wesn" for c w
    using that by (simp add: output_order_after_call)
  have fa: "output_order (final (ll2ij E sec grid_lon grid_lat npts lon lat x y w0)) = wesn"
    if p: "preserves output_order E"
    using ll2ij_invariant [of "\<lambda>w. output_order w = wesn" w0 E sec grid_lon grid_lat npts lon lat x y,
        OF start step [OF p]]
    by (auto simp: Let_def leave_simps)
  have fb: "output_order (final (sec3latlon E sec' lon' lat' w0)) = wesn"
    if p: "preserves output_order E"
    using sec3latlon_invariant [of "\<lambda>w. output_order w = wesn" w0 E sec' lon' lat',
        OF start step [OF p]]
    by (auto simp: Let_def leave_simps)
  have a: "decided_by (ll2ij E sec grid_lon grid_lat npts lon lat x y w0)
      (case call (gctpc_ll2xy_init E sec grid_lon grid_lat) (prologue w0) of
         Fatal w \<Rightarrow> Fatal w
       | Returns k w2 \<Rightarrow>
           if k \<noteq> 0 then Returns k w2 else call (gctpc_ll2xy E npts lon lat x y) w2)"
    by (simp add: ll2ij_def Let_def invoke_simps decided_by_def split: outcome.splits)
  have b: "decided_by (sec3latlon E sec' lon' lat' w0)
      (case call (gctpc_get_latlon E sec' lon' lat') (prologue w0) of
         Fatal w \<Rightarrow> Fatal w
       | Returns k w2 \<Rightarrow>
           if k \<noteq> 0 then call (get_latlon E sec' lon' lat') w2 else Returns k w2)"
    by (simp add: sec3latlon_def Let_def invoke_simps decided_by_def split: outcome.splits)
  have c: "output_order (final r) = output_order (world_of out)" if "decided_by r out"
    for r :: "'a run" and out
    using that by (simp add: decided_by_def leave_simps)
  show ?thesis
    unfolding Let_def
  proof (intro conjI impI)
    show "case call (gctpc_ll2xy_init E sec grid_lon grid_lat) (prologue w0) of
        Fatal w \<Rightarrow>
          decided_by (ll2ij E sec grid_lon grid_lat npts lon lat x y w0)
            (call (gctpc_ll2xy_init E sec grid_lon grid_lat) (prologue w0)) \<and>
          output_order (final (ll2ij E sec grid_lon grid_lat npts lon lat x y w0)) = output_order w
      | Returns k w2 \<Rightarrow>
          if k \<noteq> 0 then
            decided_by (ll2ij E sec grid_lon grid_lat npts lon lat x y w0)
              (call (gctpc_ll2xy_init E sec grid_lon grid_lat) (prologue w0)) \<and>
            output_order (final (ll2ij E sec grid_lon grid_lat npts lon lat x y w0)) = output_order w2
          else
            decided_by (ll2ij E sec grid_lon grid_lat npts lon lat x y w0)
              (call (gctpc_ll2xy E npts lon lat x y) w2) \<and>
            output_order (final (ll2ij E sec grid_lon grid_lat npts lon lat x y w0)) =
              output_order (world_of (call (gctpc_ll2xy E npts lon lat x y) w2))"
      using a c [OF a] by (auto split: outcome.splits)
    show "case call (gctpc_get_latlon E sec' lon' lat') (prologue w0) of
        Fatal w \<Rightarrow>
          decided_by (sec3latlon E sec' lon' lat' w0)
            (call (gctpc_get_latlon E sec' lon' lat') (prologue w0)) \<and>
          output_order (final (sec3latlon E sec' lon' lat' w0)) = output_order w
      | Returns k w2 \<Rightarrow>
          if k \<noteq> 0 then
            decided_by (sec3latlon E sec' lon' lat' w0) (call (get_latlon E sec' lon' lat') w2) \<and>
            output_order (final (sec3latlon E sec' lon' lat' w0)) =
              output_order (world_of (call (get_latlon E sec' lon' lat') w2))
          else
            decided_by (sec3latlon E sec' lon' lat' w0)
              (call (gctpc_get_latlon E sec' lon' lat') (prologue w0)) \<and>
            output_order (final (sec3latlon E sec' lon' lat' w0)) = output_order w2"
      using b c [OF b] by (auto split: outcome.splits)
  qed (simp_all add: fa fb prologue_def setjmp_def enter_def)
qed

theorem orientation_on_return_witness:
  "(let E = stub_engine (Ret 0) Abort (Ret 2) Abort;
        r = ll2ij E 1 2 3 1 4 5 6 7 (boot ());
        r' = sec3latlon E 1 2 3 (boot ())
    in preserves output_order E \<and> output_order (boot ()) = raw \<and>
       status r = 9 \<and> output_order (final r) = wesn \<and>
       status r' = 9 \<and> output_order (final r') = wesn)"
proof -
  let ?E = "stub_engine (Ret 0) Abort (Ret 2) Abort :: unit engine"
  have h: "preserves output_order ?E"
    by (rule preserves_stub_engine)
  have n: "output_order (boot ()) = raw"
    "status (ll2ij ?E 1 2 3 1 4 5 6 7 (boot ())) = 9"
    "status (sec3latlon ?E 1 2 3 (boot ())) = 9"
    by (simp_all add: run_defs)
  note t = orientation_on_return [of ?E 1 2 3 1 4 5 6 7 "boot ()" 1 2 3, unfolded Let_def]
  from t h have "output_order (final (ll2ij ?E 1 2 3 1 4 5 6 7 (boot ()))) = wesn"
    and "output_order (final (sec3latlon ?E 1 2 3 (boot ()))) = wesn"
    by blast+
  with h n show ?thesis by (simp add: Let_def)
qed

text \<open>
  C9 as stated fails when an engine writes the flag. With an engine whose functions
  assign \<open>wens\<close>, \<open>ll2ij\<close> returns 9 after a fatal condition in \<open>gctpc_ll2xy\<close> with the
  flag \<open>wens\<close>; with one whose functions assign \<open>raw\<close>, \<open>sec3latlon\<close> returns 0 with the
  flag \<open>raw\<close>.
\<close>

theorem orientation_not_wesn_on_return:
  "status (ll2ij (flag_writer wens (Ret 0) Abort (Ret 0) (Ret 0)) 1 2 3 1 4 5 6 7 (boot ())) = 9 \<and>
   output_order
     (final (ll2ij (flag_writer wens (Ret 0) Abort (Ret 0) (Ret 0)) 1 2 3 1 4 5 6 7 (boot ()))) =
     wens \<and>
   output_order
     (final (ll2ij (flag_writer wens (Ret 0) Abort (Ret 0) (Ret 0)) 1 2 3 1 4 5 6 7 (boot ()))) \<noteq>
     wesn \<and>
   status (sec3latlon (flag_writer raw (Ret 0) (Ret 0) (Ret 0) (Ret 0)) 1 2 3 (boot ())) = 0 \<and>
   output_order (final (sec3latlon (flag_writer raw (Ret 0) (Ret 0) (Ret 0) (Ret 0)) 1 2 3 (boot ()))) =
     raw \<and>
   output_order (final (sec3latlon (flag_writer raw (Ret 0) (Ret 0) (Ret 0) (Ret 0)) 1 2 3 (boot ()))) \<noteq>
     wesn"
  by (simp add: run_defs probe_defs)

text \<open>
  C10. The status 9 is not kept for fatal recovery. When \<open>gctpc_ll2xy_init\<close> returns 9,
  or returns 0 and \<open>gctpc_ll2xy\<close> returns 9, \<open>ll2ij\<close> returns 9 though no fatal condition
  was raised; when \<open>gctpc_get_latlon\<close> returns a status other than 0 and \<open>get_latlon\<close>
  returns 9, so does \<open>sec3latlon\<close>. In each case the caller can tell nothing apart from
  the run with an engine \<open>E'\<close> that raises a fatal condition at that call and leaves the
  same world: the statuses and the worlds returned to are equal.
\<close>

theorem status_9_not_reserved:
  "(call (gctpc_ll2xy_init E sec grid_lon grid_lat) (prologue w0) = Returns 9 w \<and>
    call (gctpc_ll2xy_init E' sec grid_lon grid_lat) (prologue w0) = Fatal w \<longrightarrow>
      status (ll2ij E sec grid_lon grid_lat npts lon lat x y w0) = 9 \<and>
      \<not> fatal_raised (ll2ij E sec grid_lon grid_lat npts lon lat x y w0) \<and>
      fatal_raised (ll2ij E' sec grid_lon grid_lat npts lon lat x y w0) \<and>
      same_to_caller (ll2ij E sec grid_lon grid_lat npts lon lat x y w0)
                     (ll2ij E' sec grid_lon grid_lat npts lon lat x y w0)) \<and>
   (call (gctpc_ll2xy_init E sec grid_lon grid_lat) (prologue w0) = Returns 0 w1 \<and>
    call (gctpc_ll2xy_init E' sec grid_lon grid_lat) (prologue w0) = Returns 0 w1 \<and>
    call (gctpc_ll2xy E npts lon lat x y) w1 = Returns 9 w \<and>
    call (gctpc_ll2xy E' npts lon lat x y) w1 = Fatal w \<longrightarrow>
      status (ll2ij E sec grid_lon grid_lat npts lon lat x y w0) = 9 \<and>
      \<not> fatal_raised (ll2ij E sec grid_lon grid_lat npts lon lat x y w0) \<and>
      fatal_raised (ll2ij E' sec grid_lon grid_lat npts lon lat x y w0) \<and>
      same_to_caller (ll2ij E sec grid_lon grid_lat npts lon lat x y w0)
                     (ll2ij E' sec grid_lon grid_lat npts lon lat x y w0)) \<and>
   (call (gctpc_get_latlon E sec lon lat) (prologue w0) = Returns k w1 \<and> k \<noteq> 0 \<and>
    call (gctpc_get_latlon E' sec lon lat) (prologue w0) = Returns k w1 \<and>
    call (get_latlon E sec lon lat) w1 = Returns 9 w \<and>
    call (get_latlon E' sec lon lat) w1 = Fatal w \<longrightarrow>
      status (sec3latlon E sec lon lat w0) = 9 \<and>
      \<not> fatal_raised (sec3latlon E sec lon lat w0) \<and>
      fatal_raised (sec3latlon E' sec lon lat w0) \<and>
      same_to_caller (sec3latlon E sec lon lat w0) (sec3latlon E' sec lon lat w0))"
  by (simp add: ll2ij_def sec3latlon_def Let_def invoke_simps fatal_raised_def same_to_caller_def)

theorem status_9_not_reserved_witness:
  "(let w = prologue (boot ());
        A = stub_engine (Ret 9) (Ret 0) (Ret 0) (Ret 0); A' = stub_engine Abort (Ret 0) (Ret 0) (Ret 0);
        B = stub_engine (Ret 0) (Ret 9) (Ret 0) (Ret 0); B' = stub_engine (Ret 0) Abort (Ret 0) (Ret 0);
        C = stub_engine (Ret 0) (Ret 0) (Ret 5) (Ret 9); C' = stub_engine (Ret 0) (Ret 0) (Ret 5) Abort
    in call (gctpc_ll2xy_init A 1 2 3) w = Returns 9 w \<and>
       call (gctpc_ll2xy_init A' 1 2 3) w = Fatal w \<and>
       status (ll2ij A 1 2 3 1 4 5 6 7 (boot ())) = 9 \<and>
       \<not> fatal_raised (ll2ij A 1 2 3 1 4 5 6 7 (boot ())) \<and>
       same_to_caller (ll2ij A 1 2 3 1 4 5 6 7 (boot ())) (ll2ij A' 1 2 3 1 4 5 6 7 (boot ())) \<and>
       call (gctpc_ll2xy B 1 4 5 6 7) w = Returns 9 w \<and>
       call (gctpc_ll2xy B' 1 4 5 6 7) w = Fatal w \<and>
       status (ll2ij B 1 2 3 1 4 5 6 7 (boot ())) = 9 \<and>
       \<not> fatal_raised (ll2ij B 1 2 3 1 4 5 6 7 (boot ())) \<and>
       same_to_caller (ll2ij B 1 2 3 1 4 5 6 7 (boot ())) (ll2ij B' 1 2 3 1 4 5 6 7 (boot ())) \<and>
       call (get_latlon C 1 2 3) w = Returns 9 w \<and>
       call (get_latlon C' 1 2 3) w = Fatal w \<and>
       status (sec3latlon C 1 2 3 (boot ())) = 9 \<and>
       \<not> fatal_raised (sec3latlon C 1 2 3 (boot ())) \<and>
       same_to_caller (sec3latlon C 1 2 3 (boot ())) (sec3latlon C' 1 2 3 (boot ())))"
proof -
  let ?w = "prologue (boot ())"
  let ?A = "stub_engine (Ret 9) (Ret 0) (Ret 0) (Ret 0) :: unit engine"
  let ?A' = "stub_engine Abort (Ret 0) (Ret 0) (Ret 0) :: unit engine"
  let ?B = "stub_engine (Ret 0) (Ret 9) (Ret 0) (Ret 0) :: unit engine"
  let ?B' = "stub_engine (Ret 0) Abort (Ret 0) (Ret 0) :: unit engine"
  let ?C = "stub_engine (Ret 0) (Ret 0) (Ret 5) (Ret 9) :: unit engine"
  let ?C' = "stub_engine (Ret 0) (Ret 0) (Ret 5) Abort :: unit engine"
  have a: "call (gctpc_ll2xy_init ?A 1 2 3) ?w = Returns 9 ?w"
    "call (gctpc_ll2xy_init ?A' 1 2 3) ?w = Fatal ?w"
    by (simp_all add: run_defs)
  have b: "call (gctpc_ll2xy_init ?B 1 2 3) ?w = Returns 0 ?w"
    "call (gctpc_ll2xy_init ?B' 1 2 3) ?w = Returns 0 ?w"
    "call (gctpc_ll2xy ?B 1 4 5 6 7) ?w = Returns 9 ?w"
    "call (gctpc_ll2xy ?B' 1 4 5 6 7) ?w = Fatal ?w"
    by (simp_all add: run_defs)
  have c: "call (gctpc_get_latlon ?C 1 2 3) ?w = Returns 5 ?w"
    "call (gctpc_get_latlon ?C' 1 2 3) ?w = Returns 5 ?w"
    "call (get_latlon ?C 1 2 3) ?w = Returns 9 ?w"
    "call (get_latlon ?C' 1 2 3) ?w = Fatal ?w"
    "(5::c_int) \<noteq> 0"
    by (simp_all add: run_defs)
  from status_9_not_reserved
      [where E = ?A and E' = ?A' and ?w0.0 = "boot ()" and w = ?w and ?w1.0 = ?w and k = 5
        and sec = 1 and grid_lon = 2 and grid_lat = 3 and npts = 1 and lon = 4 and lat = 5
        and x = 6 and y = 7]
    status_9_not_reserved
      [where E = ?B and E' = ?B' and ?w0.0 = "boot ()" and w = ?w and ?w1.0 = ?w and k = 5
        and sec = 1 and grid_lon = 2 and grid_lat = 3 and npts = 1 and lon = 4 and lat = 5
        and x = 6 and y = 7]
    status_9_not_reserved
      [where E = ?C and E' = ?C' and ?w0.0 = "boot ()" and w = ?w and ?w1.0 = ?w and k = 5
        and sec = 1 and grid_lon = 2 and grid_lat = 3 and npts = 1 and lon = 2 and lat = 3
        and x = 6 and y = 7]
    a b c
  show ?thesis by (simp add: Let_def)
qed

end
